theory Spec2Isabelle
  imports Complex_Main
begin

section \<open>JavaScript values\<close>

text \<open>
  The checkout handler of \<^verbatim>\<open>app.js\<close> works on what \<^verbatim>\<open>JSON.parse\<close> returns. A parsed
  document is a \<open>jsval\<close>; \<open>JUndefined\<close> never comes out of the parser, it is the value of
  a property that an object does not have. Object members are kept in document order.

  A JavaScript number is an IEEE double. Here a finite number is a \<open>real\<close> and arithmetic
  is exact, so sums and products are the ideal values that the doubles approximate; \<open>NaN\<close>
  is kept, since \<^verbatim>\<open>undefined * undefined\<close> produces it. Text is a \<open>string\<close> holding the
  UTF-8 bytes of the JavaScript string.
\<close>

datatype number = Num real | NaN

datatype jsval =
    JUndefined
  | JNull
  | JBool bool
  | JNumber real
  | JString string
  | JArray "jsval list"
  | JObject "(string \<times> jsval) list"

datatype js_error = TypeError | SyntaxError

text \<open>
  How the evaluation of an expression ends: with a value, with an exception, or outside
  what this development reproduces (\<open>OutOfModel\<close>, see \<open>ToNumber\<close> below).
\<close>

datatype 'a completion = Normal 'a | Throw js_error | OutOfModel

section \<open>JSON.parse\<close>

text \<open>
  \<^verbatim>\<open>JSON.parse\<close> is the language's built-in; it is reproduced after the JSON grammar
  (ECMA-404, ECMA-262 25.5.1): a lexer from text to tokens and a pushdown recogniser from
  tokens to a value. \<open>None\<close> stands for the \<^verbatim>\<open>SyntaxError\<close> that the built-in throws.
\<close>

definition is_ws :: "char \<Rightarrow> bool" where
  "is_ws c = (c = CHR '' '' \<or> c = CHR 0x09 \<or> c = CHR 0x0A \<or> c = CHR 0x0D)"

definition is_digit :: "char \<Rightarrow> bool" where
  "is_digit c = (48 \<le> (of_char c :: nat) \<and> (of_char c :: nat) \<le> 57)"

definition digit_val :: "char \<Rightarrow> nat" where
  "digit_val c = of_char c - 48"

definition digits_val :: "string \<Rightarrow> nat" where
  "digits_val ds = foldl (\<lambda>a c. 10 * a + digit_val c) 0 ds"

definition hex_val :: "char \<Rightarrow> nat option" where
  "hex_val c =
     (let n = (of_char c :: nat) in
      if 48 \<le> n \<and> n \<le> 57 then Some (n - 48)
      else if 65 \<le> n \<and> n \<le> 70 then Some (n - 55)
      else if 97 \<le> n \<and> n \<le> 102 then Some (n - 87)
      else None)"

definition hex4 :: "char \<Rightarrow> char \<Rightarrow> char \<Rightarrow> char \<Rightarrow> nat option" where
  "hex4 a b c d =
     (case (hex_val a, hex_val b, hex_val c, hex_val d) of
        (Some w, Some x, Some y, Some z) \<Rightarrow> Some (4096 * w + 256 * x + 16 * y + z)
      | _ \<Rightarrow> None)"

text \<open>The UTF-8 bytes of a code point (a lone surrogate is encoded like any other).\<close>

definition utf8 :: "nat \<Rightarrow> string" where
  "utf8 n =
     (if n < 128 then [char_of n]
      else if n < 2048 then [char_of (192 + n div 64), char_of (128 + n mod 64)]
      else if n < 65536 then
        [char_of (224 + n div 4096), char_of (128 + n div 64 mod 64), char_of (128 + n mod 64)]
      else
        [char_of (240 + n div 262144), char_of (128 + n div 4096 mod 64),
         char_of (128 + n div 64 mod 64), char_of (128 + n mod 64)])"

definition unescape :: "char \<Rightarrow> char option" where
  "unescape e =
     (if e = CHR 0x22 \<or> e = CHR 0x5C \<or> e = CHR ''/'' then Some e
      else if e = CHR ''b'' then Some (CHR 0x08)
      else if e = CHR ''f'' then Some (CHR 0x0C)
      else if e = CHR ''n'' then Some (CHR 0x0A)
      else if e = CHR ''r'' then Some (CHR 0x0D)
      else if e = CHR ''t'' then Some (CHR 0x09)
      else None)"

text \<open>
  \<open>uni_escape cs\<close> reads what follows \<^verbatim>\<open>\u\<close>: four hexadecimal digits, and when they
  are a high surrogate directly followed by an escaped low surrogate, that escape too.
  It returns the code point and the number of characters read.
\<close>

definition uni_escape :: "string \<Rightarrow> (nat \<times> nat) option" where
  "uni_escape cs =
     (case cs of
        a # b # c # d # rest \<Rightarrow>
          (case hex4 a b c d of
             None \<Rightarrow> None
           | Some hi \<Rightarrow>
               (case rest of
                  bs # u # a' # b' # c' # d' # _ \<Rightarrow>
                    (case hex4 a' b' c' d' of
                       Some lo \<Rightarrow>
                         if bs = CHR 0x5C \<and> u = CHR ''u'' \<and> 55296 \<le> hi \<and> hi < 56320
                            \<and> 56320 \<le> lo \<and> lo < 57344
                         then Some (65536 + (hi - 55296) * 1024 + (lo - 56320), 10)
                         else Some (hi, 4)
                     | None \<Rightarrow> Some (hi, 4))
                | _ \<Rightarrow> Some (hi, 4)))
      | _ \<Rightarrow> None)"

text \<open>
  The body of a string literal, after the opening quote: the decoded text and the input
  left after the closing quote.
\<close>

fun lex_string :: "string \<Rightarrow> string \<Rightarrow> (string \<times> string) option" where
  "lex_string acc [] = None"
| "lex_string acc (c # cs) =
     (if c = CHR 0x22 then Some (acc, cs)
      else if c = CHR 0x5C then
        (case cs of
           [] \<Rightarrow> None
         | e # cs' \<Rightarrow>
             if e = CHR ''u'' then
               (case uni_escape cs' of
                  None \<Rightarrow> None
                | Some (n, used) \<Rightarrow> lex_string (acc @ utf8 n) (drop used cs'))
             else
               (case unescape e of
                  None \<Rightarrow> None
                | Some d \<Rightarrow> lex_string (acc @ [d]) cs'))
      else if (of_char c :: nat) < 32 then None
      else lex_string (acc @ [c]) cs)"

text \<open>
  A number token: \<^verbatim>\<open>-? (0 | [1-9][0-9]*) (. [0-9]+)? ([eE] [+-]? [0-9]+)?\<close>, and its
  value.
\<close>

definition is_num_char :: "char \<Rightarrow> bool" where
  "is_num_char c =
     (is_digit c \<or> c = CHR ''.'' \<or> c = CHR ''e'' \<or> c = CHR ''E'' \<or> c = CHR ''+'' \<or> c = CHR ''-'')"

definition parse_number :: "string \<Rightarrow> real option" where
  "parse_number s =
     (let neg = (s \<noteq> [] \<and> hd s = CHR ''-'');
          s1 = (if neg then tl s else s);
          ip = takeWhile is_digit s1;
          s2 = dropWhile is_digit s1;
          has_frac = (s2 \<noteq> [] \<and> hd s2 = CHR ''.'');
          fp = (if has_frac then takeWhile is_digit (tl s2) else []);
          s3 = (if has_frac then dropWhile is_digit (tl s2) else s2);
          has_exp = (s3 \<noteq> [] \<and> (hd s3 = CHR ''e'' \<or> hd s3 = CHR ''E''));
          s4 = (if has_exp then tl s3 else s3);
          eneg = (has_exp \<and> s4 \<noteq> [] \<and> hd s4 = CHR ''-'');
          s5 = (if has_exp \<and> s4 \<noteq> [] \<and> (hd s4 = CHR ''-'' \<or> hd s4 = CHR ''+'') then tl s4 else s4);
          ep = (if has_exp then takeWhile is_digit s5 else []);
          s6 = (if has_exp then dropWhile is_digit s5 else s5);
          mant = real (digits_val ip) + real (digits_val fp) / 10 ^ length fp;
          scaled = (if eneg then mant / 10 ^ digits_val ep else mant * 10 ^ digits_val ep)
      in if ip = [] \<or> (length ip > 1 \<and> hd ip = CHR ''0'') \<or> (has_frac \<and> fp = [])
            \<or> (has_exp \<and> ep = []) \<or> s6 \<noteq> []
         then None
         else Some (if neg then - scaled else scaled))"

datatype token =
    TLBracket | TRBracket | TLBrace | TRBrace | TComma | TColon | TValue jsval

lemma lex_string_shorter:
  "lex_string acc cs = Some (s, rest) \<Longrightarrow> length rest \<le> length cs"
proof (induction acc cs rule: lex_string.induct)
  case (1 acc)
  then show ?case by simp
next
  case (2 acc c cs)
  show ?case
  proof (cases "c = CHR 0x22")
    case True
    with 2(4) show ?thesis by simp
  next
    case quote: False
    show ?thesis
    proof (cases "c = CHR 0x5C")
      case False
      with quote 2(4) have "lex_string (acc @ [c]) cs = Some (s, rest)"
        by (simp split: if_splits)
      with 2(3) [OF quote False] quote False 2(4) show ?thesis
        by (simp split: if_splits)
    next
      case True
      with quote 2(4) obtain e cs' where cs: "cs = e # cs'"
        by (cases cs) auto
      show ?thesis
      proof (cases "e = CHR ''u''")
        case u: True
        with quote True cs 2(4) obtain n used where
          ue: "uni_escape cs' = Some (n, used)"
          and r: "lex_string (acc @ utf8 n) (drop used cs') = Some (s, rest)"
          by (auto split: option.splits)
        from 2(1) [OF quote True cs u ue refl r]
        have "length rest \<le> length (drop used cs')" .
        with cs show ?thesis by simp
      next
        case nu: False
        with quote True cs 2(4) obtain d where
          ue: "unescape e = Some d"
          and r: "lex_string (acc @ [d]) cs' = Some (s, rest)"
          by (auto split: option.splits)
        from 2(2) [OF quote True cs nu ue r]
        have "length rest \<le> length cs'" .
        with cs show ?thesis by simp
      qed
    qed
  qed
qed

function lex :: "string \<Rightarrow> token list option" where
  "lex [] = Some []"
| "lex (c # cs) =
     (if is_ws c then lex cs
      else if c = CHR ''['' then map_option (Cons TLBracket) (lex cs)
      else if c = CHR '']'' then map_option (Cons TRBracket) (lex cs)
      else if c = CHR ''{'' then map_option (Cons TLBrace) (lex cs)
      else if c = CHR ''}'' then map_option (Cons TRBrace) (lex cs)
      else if c = CHR '','' then map_option (Cons TComma) (lex cs)
      else if c = CHR '':'' then map_option (Cons TColon) (lex cs)
      else if c = CHR 0x22 then
        (case lex_string [] cs of
           None \<Rightarrow> None
         | Some (s, rest) \<Rightarrow> map_option (Cons (TValue (JString s))) (lex rest))
      else if c = CHR ''-'' \<or> is_digit c then
        (case parse_number (c # takeWhile is_num_char cs) of
           None \<Rightarrow> None
         | Some r \<Rightarrow> map_option (Cons (TValue (JNumber r))) (lex (dropWhile is_num_char cs)))
      else if take 4 (c # cs) = ''null'' then
        map_option (Cons (TValue JNull)) (lex (drop 3 cs))
      else if take 4 (c # cs) = ''true'' then
        map_option (Cons (TValue (JBool True))) (lex (drop 3 cs))
      else if take 5 (c # cs) = ''false'' then
        map_option (Cons (TValue (JBool False))) (lex (drop 4 cs))
      else None)"
  by pat_completeness auto
termination
proof (relation "measure length")
  fix c cs x2 x y
  assume "lex_string [] cs = Some x2" and "(x, y) = x2"
  then have "lex_string [] cs = Some (x, y)" by simp
  from lex_string_shorter [OF this] show "(y, c # cs) \<in> measure length" by simp
qed (simp_all add: le_imp_less_Suc length_dropWhile_le)

text \<open>
  The recogniser reads the tokens from left to right with a stack of the containers that
  are still open. \<open>FArr xs\<close> is an array with the elements \<open>xs\<close> read so far, \<open>FObj ms\<close> an
  object with the members \<open>ms\<close>, and \<open>FMember ms k\<close> the same object after the key \<open>k\<close> of
  its next member.
\<close>

datatype frame =
    FArr "jsval list"
  | FObj "(string \<times> jsval) list"
  | FMember "(string \<times> jsval) list" string

datatype mode =
    MValue          \<comment> \<open>a value must follow\<close>
  | MFirstElem      \<comment> \<open>after \<^verbatim>\<open>[\<close>: a value or \<^verbatim>\<open>]\<close>\<close>
  | MFirstKey       \<comment> \<open>after \<^verbatim>\<open>{\<close>: a key or \<^verbatim>\<open>}\<close>\<close>
  | MKey            \<comment> \<open>after a comma in an object: a key\<close>
  | MColon          \<comment> \<open>after a key: the colon\<close>
  | MNext           \<comment> \<open>after a value in a container: a comma or the closing bracket\<close>
  | MDone jsval     \<comment> \<open>the document is complete\<close>

fun deliver :: "jsval \<Rightarrow> frame list \<Rightarrow> (mode \<times> frame list) option" where
  "deliver v [] = Some (MDone v, [])"
| "deliver v (FArr xs # st) = Some (MNext, FArr (xs @ [v]) # st)"
| "deliver v (FMember ms k # st) = Some (MNext, FObj (ms @ [(k, v)]) # st)"
| "deliver v (FObj ms # st) = None"

fun start_value :: "token \<Rightarrow> frame list \<Rightarrow> (mode \<times> frame list) option" where
  "start_value (TValue v) st = deliver v st"
| "start_value TLBracket st = Some (MFirstElem, FArr [] # st)"
| "start_value TLBrace st = Some (MFirstKey, FObj [] # st)"
| "start_value _ st = None"

fun close_array :: "frame list \<Rightarrow> (mode \<times> frame list) option" where
  "close_array (FArr xs # st) = deliver (JArray xs) st"
| "close_array _ = None"

fun close_object :: "frame list \<Rightarrow> (mode \<times> frame list) option" where
  "close_object (FObj ms # st) = deliver (JObject ms) st"
| "close_object _ = None"

fun start_member :: "token \<Rightarrow> frame list \<Rightarrow> (mode \<times> frame list) option" where
  "start_member (TValue (JString k)) (FObj ms # st) = Some (MColon, FMember ms k # st)"
| "start_member _ _ = None"

fun step :: "mode \<Rightarrow> frame list \<Rightarrow> token \<Rightarrow> (mode \<times> frame list) option" where
  "step MValue st t = start_value t st"
| "step MFirstElem st t = (if t = TRBracket then close_array st else start_value t st)"
| "step MFirstKey st t = (if t = TRBrace then close_object st else start_member t st)"
| "step MKey st t = start_member t st"
| "step MColon st t = (if t = TColon then Some (MValue, st) else None)"
| "step MNext st t =
     (case st of
        FArr xs # _ \<Rightarrow>
          if t = TComma then Some (MValue, st)
          else if t = TRBracket then close_array st
          else None
      | FObj ms # _ \<Rightarrow>
          if t = TComma then Some (MKey, st)
          else if t = TRBrace then close_object st
          else None
      | _ \<Rightarrow> None)"
| "step (MDone v) st t = None"

fun run :: "mode \<Rightarrow> frame list \<Rightarrow> token list \<Rightarrow> jsval option" where
  "run m st [] = (case m of MDone v \<Rightarrow> Some v | _ \<Rightarrow> None)"
| "run m st (t # ts) =
     (case step m st t of
        None \<Rightarrow> None
      | Some (m', st') \<Rightarrow> run m' st' ts)"

definition JSON_parse :: "string \<Rightarrow> jsval option" where
  "JSON_parse s = (case lex s of None \<Rightarrow> None | Some ts \<Rightarrow> run MValue [] ts)"

section \<open>Expressions of the checkout handler\<close>

text \<open>
  Property access \<^verbatim>\<open>item.k\<close>. On \<^verbatim>\<open>null\<close> it throws; on an object it is the member
  with that key, the last one when the document repeats the key (as \<^verbatim>\<open>JSON.parse\<close>
  keeps it), and \<^verbatim>\<open>undefined\<close> when there is none; on a number, a boolean, a string or
  an array it is \<^verbatim>\<open>undefined\<close>. The handler reads \<^verbatim>\<open>price\<close>, \<^verbatim>\<open>quantity\<close> and \<^verbatim>\<open>name\<close>
  only, none of which a prototype provides.
\<close>

fun get_prop :: "jsval \<Rightarrow> string \<Rightarrow> jsval completion" where
  "get_prop JUndefined k = Throw TypeError"
| "get_prop JNull k = Throw TypeError"
| "get_prop (JObject ms) k =
     Normal (case map_of (rev ms) k of None \<Rightarrow> JUndefined | Some v \<Rightarrow> v)"
| "get_prop _ k = Normal JUndefined"

text \<open>
  \<open>ToNumber\<close>, applied by \<^verbatim>\<open>*\<close> to both operands. The conversion of a string, and of an
  array or object through its string form, follows the grammar of numeric string literals
  and is not reproduced: such operands are \<open>OutOfModel\<close>.
\<close>

fun to_number :: "jsval \<Rightarrow> number completion" where
  "to_number JUndefined = Normal NaN"
| "to_number JNull = Normal (Num 0)"
| "to_number (JBool b) = Normal (Num (if b then 1 else 0))"
| "to_number (JNumber r) = Normal (Num r)"
| "to_number (JString s) = OutOfModel"
| "to_number (JArray xs) = OutOfModel"
| "to_number (JObject ms) = OutOfModel"

fun js_mul :: "number \<Rightarrow> number \<Rightarrow> number" where
  "js_mul (Num a) (Num b) = Num (a * b)"
| "js_mul _ _ = NaN"

fun js_add :: "number \<Rightarrow> number \<Rightarrow> number" where
  "js_add (Num a) (Num b) = Num (a + b)"
| "js_add _ _ = NaN"

definition and_then :: "'a completion \<Rightarrow> ('a \<Rightarrow> 'b completion) \<Rightarrow> 'b completion" where
  "and_then c f = (case c of Normal v \<Rightarrow> f v | Throw e \<Rightarrow> Throw e | OutOfModel \<Rightarrow> OutOfModel)"

text \<open>\<^verbatim>\<open>item.price * item.quantity\<close>: both properties are read, then both are converted.\<close>

definition line_amount :: "jsval \<Rightarrow> number completion" where
  "line_amount item =
     and_then (get_prop item ''price'') (\<lambda>p.
     and_then (get_prop item ''quantity'') (\<lambda>q.
     and_then (to_number p) (\<lambda>a.
     and_then (to_number q) (\<lambda>b.
     Normal (js_mul a b)))))"

text \<open>
  \<^verbatim>\<open>cartItems.reduce((sum, item) => sum + item.price * item.quantity, 0)\<close>, line 351. The
  accumulator starts as the number 0 and stays a number, so \<^verbatim>\<open>+\<close> is always the addition
  of numbers.
\<close>

fun reduce_total :: "number \<Rightarrow> jsval list \<Rightarrow> number completion" where
  "reduce_total acc [] = Normal acc"
| "reduce_total acc (item # rest) =
     and_then (line_amount item) (\<lambda>a. reduce_total (js_add acc a) rest)"

section \<open>The entities and the store\<close>

text \<open>
  The three entity schemas of lines 25 to 73. An order item carries the three values the
  handler hands to the repository (line 359) as they are, but for a quantity that is
  \<^verbatim>\<open>undefined\<close>, which the insert leaves to the column's default (\<^verbatim>\<open>default: 1\<close>,
  line 63). How the database converts a value that is not of the column's type is not part
  of this development. The column \<^verbatim>\<open>createdAt\<close> is set by the database clock and left
  out.
\<close>

record product_seed =
  seed_name :: string
  seed_price :: real
  seed_image :: string

record product = product_seed +
  product_id :: nat

record item_draft =
  productName :: jsval
  productPrice :: jsval
  quantity :: jsval

record order_item = item_draft +
  item_id :: nat
  item_order :: nat

record order_draft =
  order_name :: "string option"
  order_address :: "string option"
  order_total :: number

record order_row = order_draft +
  order_id :: nat

text \<open>
  The store: the rows of the three tables, and for each table the identifier that its
  next row gets (\<^verbatim>\<open>generated: true\<close>).
\<close>

record store =
  products :: "product list"
  orders :: "order_row list"
  order_items :: "order_item list"
  next_product :: nat
  next_order :: nat
  next_item :: nat

definition insert_product :: "product_seed \<Rightarrow> store \<Rightarrow> store" where
  "insert_product p st =
     st\<lparr>products := products st @
          [\<lparr>seed_name = seed_name p, seed_price = seed_price p, seed_image = seed_image p,
            product_id = next_product st\<rparr>],
        next_product := Suc (next_product st)\<rparr>"

definition insert_order :: "order_draft \<Rightarrow> store \<Rightarrow> store" where
  "insert_order d st =
     st\<lparr>orders := orders st @
          [\<lparr>order_name = order_name d, order_address = order_address d,
            order_total = order_total d, order_id = next_order st\<rparr>],
        next_order := Suc (next_order st)\<rparr>"

text \<open>The quantity that an insert stores: the column's default 1 for \<^verbatim>\<open>undefined\<close>.\<close>

definition stored_quantity :: "jsval \<Rightarrow> jsval" where
  "stored_quantity q = (if q = JUndefined then JNumber 1 else q)"

definition insert_item :: "nat \<Rightarrow> item_draft \<Rightarrow> store \<Rightarrow> store" where
  "insert_item oid d st =
     st\<lparr>order_items := order_items st @
          [\<lparr>productName = productName d, productPrice = productPrice d,
            quantity = stored_quantity (quantity d), item_id = next_item st,
            item_order = oid\<rparr>],
        next_item := Suc (next_item st)\<rparr>"

text \<open>
  The repository of the object-relational mapper is not among the sources. What follows
  is its \<^verbatim>\<open>save\<close>, after the spec (4.2, 5): the order and its items are written ``as a
  single atomic unit -- either all rows commit or none do'', a guarantee ``delegated
  entirely to the backing relational store's transaction mechanism''. A fault says how the
  storage behaves during one save: \<open>NoFault\<close> accepts it, \<open>FailAt k\<close> lets \<open>k\<close> of its
  inserts through and fails the next statement (the commit, when all inserts are through).
  Whether the storage accepts a save is not the handler's choice: the constraints of the
  schema (\<^verbatim>\<open>nullable: false\<close>, the column types) are among the reasons for a fault.
\<close>

datatype fault = NoFault | FailAt nat

datatype storage_error = QueryFailed

definition apply_writes :: "(store \<Rightarrow> store) list \<Rightarrow> store \<Rightarrow> store" where
  "apply_writes ws st = foldl (\<lambda>s w. w s) st ws"

definition rollback :: "store \<Rightarrow> store \<Rightarrow> store" where
  "rollback snapshot st =
     st\<lparr>products := products snapshot, orders := orders snapshot,
        order_items := order_items snapshot\<rparr>"

text \<open>
  Modelled from the spec: the transaction of a save. Its inserts run in order on a working
  copy; a failed transaction is rolled back, which restores the rows of the tables and
  leaves the identifier counters where they are.
\<close>

fun transaction :: "fault \<Rightarrow> (store \<Rightarrow> store) list \<Rightarrow> store \<Rightarrow> store \<times> (storage_error + unit)" where
  "transaction NoFault ws st = (apply_writes ws st, Inr ())"
| "transaction (FailAt k) ws st = (rollback st (apply_writes (take k ws) st), Inl QueryFailed)"

text \<open>
  Modelled from the spec: \<^verbatim>\<open>orderRepository.save(order)\<close>, line 361. With
  \<^verbatim>\<open>cascade: true\<close> (line 51) it inserts the header, then one row for each item, each
  referring to the header, in one transaction. The result is the saved order's id.
\<close>

definition save_order ::
  "fault \<Rightarrow> store \<Rightarrow> order_draft \<Rightarrow> item_draft list \<Rightarrow> store \<times> (storage_error + nat)" where
  "save_order f st d items =
     (let oid = next_order st in
      case transaction f (insert_order d # map (insert_item oid) items) st of
        (st', Inl e) \<Rightarrow> (st', Inl e)
      | (st', Inr _) \<Rightarrow> (st', Inr oid))"

text \<open>Modelled from the spec: \<^verbatim>\<open>repo.save(defaults)\<close>, line 395, one insert for each product.\<close>

definition save_products ::
  "fault \<Rightarrow> store \<Rightarrow> product_seed list \<Rightarrow> store \<times> (storage_error + unit)" where
  "save_products f st ps = transaction f (map insert_product ps) st"

section \<open>The HTTP handlers\<close>

text \<open>
  What a handler does with a request: it sends a response (status and body), or an
  exception leaves it and it sends nothing, or the request is outside this development
  (\<open>Unmodelled\<close>, when \<open>ToNumber\<close> is). \<open>renderPage\<close> (line 162) wraps a title and a content
  in a fixed HTML frame; the frame is not spelled out.
\<close>

datatype body = Text string | Page string string

datatype outcome = Response nat body | Uncaught js_error | Unmodelled

definition renderPage :: "string \<Rightarrow> string \<Rightarrow> body" where
  "renderPage title content = Page title content"

text \<open>The decimal digits of an identifier, as a template literal prints it.\<close>

fun show_nat :: "nat \<Rightarrow> string" where
  "show_nat n =
     (if n < 10 then [char_of (48 + n)]
      else show_nat (n div 10) @ [char_of (48 + n mod 10)])"

declare show_nat.simps [simp del]

text \<open>The content of the confirmation page, lines 362 to 367, without its indentation.\<close>

definition confirmation :: "nat \<Rightarrow> string" where
  \<open>confirmation oid =
     ''<div class="text-center">'' @
     ''<h1>Thank you for your order!</h1>'' @
     ''<p>Your order ID is '' @ show_nat oid @ ''.</p>'' @
     ''<a class="btn btn-primary" href="/" onclick="sessionStorage.removeItem('cart')">Back to Home</a>'' @
     ''</div>''\<close>

subsection \<open>GET /readyz\<close>

text \<open>Line 204. The data source carries the flag that \<^verbatim>\<open>initialize()\<close> sets.\<close>

record data_source =
  isInitialized :: bool

definition readyz :: "data_source \<Rightarrow> outcome" where
  "readyz ds =
     (if isInitialized ds then Response 200 (Text ''ready'')
      else Response 503 (Text ''not ready''))"

subsection \<open>POST /checkout\<close>

text \<open>
  The fields of the posted form, each a text as an HTML form posts it. A field that the
  request does not have is \<open>None\<close>
  (\<^verbatim>\<open>undefined\<close>), and so is every field when the request has no body
  (\<^verbatim>\<open>req.body || {}\<close>, line 341).
\<close>

record form =
  form_name :: "string option"
  form_address :: "string option"
  cartData :: "string option"

definition fields_of :: "form option \<Rightarrow> form" where
  "fields_of req_body =
     (case req_body of
        None \<Rightarrow> \<lparr>form_name = None, form_address = None, cartData = None\<rparr>
      | Some f \<Rightarrow> f)"

text \<open>\<^verbatim>\<open>cartData || '[]'\<close>: the default replaces an absent field and the empty string.\<close>

definition cart_text :: "string option \<Rightarrow> string" where
  "cart_text cd = (case cd of None \<Rightarrow> ''[]'' | Some s \<Rightarrow> if s = [] then ''[]'' else s)"

text \<open>
  \<^verbatim>\<open>cartItems.map(i => ({ productName: i.name, productPrice: i.price, quantity: i.quantity }))\<close>,
  line 359.
\<close>

definition snapshot :: "jsval \<Rightarrow> item_draft completion" where
  "snapshot i =
     and_then (get_prop i ''name'') (\<lambda>n.
     and_then (get_prop i ''price'') (\<lambda>p.
     and_then (get_prop i ''quantity'') (\<lambda>q.
     Normal \<lparr>productName = n, productPrice = p, quantity = q\<rparr>)))"

fun map_items :: "jsval list \<Rightarrow> item_draft list completion" where
  "map_items [] = Normal []"
| "map_items (i # rest) =
     and_then (snapshot i) (\<lambda>d. and_then (map_items rest) (\<lambda>ds. Normal (d # ds)))"

text \<open>
  The \<^verbatim>\<open>try\<close> block of lines 353 to 372: build the order, save it, answer with the
  confirmation page; whatever is thrown inside is answered with status 500.
\<close>

definition persist ::
  "fault \<Rightarrow> store \<Rightarrow> form \<Rightarrow> number \<Rightarrow> jsval list \<Rightarrow> store \<times> outcome" where
  "persist f st fm amount items =
     (case map_items items of
        Throw e \<Rightarrow> (st, Response 500 (Text ''Error processing order''))
      | OutOfModel \<Rightarrow> (st, Unmodelled)
      | Normal drafts \<Rightarrow>
          (case save_order f st
                  \<lparr>order_name = form_name fm, order_address = form_address fm,
                   order_total = amount\<rparr> drafts of
             (st', Inl e) \<Rightarrow> (st', Response 500 (Text ''Error processing order''))
           | (st', Inr saved_id) \<Rightarrow>
               (st', Response 200
                  (renderPage ''Order Confirmation - Web Forx Online Storeshop''
                     (confirmation saved_id)))))"

text \<open>
  The handler, lines 340 to 373. The reduction of line 351 stands outside both
  \<^verbatim>\<open>try\<close> blocks: an exception there leaves the handler.
\<close>

definition post_checkout :: "fault \<Rightarrow> store \<Rightarrow> form option \<Rightarrow> store \<times> outcome" where
  "post_checkout f st req_body =
     (let fm = fields_of req_body in
      case JSON_parse (cart_text (cartData fm)) of
        None \<Rightarrow> (st, Response 400 (Text ''Invalid cart data''))
      | Some cartItems \<Rightarrow>
          (case cartItems of
             JArray items \<Rightarrow>
               if length items = 0 then (st, Response 400 (Text ''Cart is empty''))
               else
                 (case reduce_total (Num 0) items of
                    Throw e \<Rightarrow> (st, Uncaught e)
                  | OutOfModel \<Rightarrow> (st, Unmodelled)
                  | Normal amount \<Rightarrow> persist f st fm amount items)
           | _ \<Rightarrow> (st, Response 400 (Text ''Cart is empty''))))"

subsection \<open>The seed of the catalog at startup\<close>

text \<open>The built-in defaults of lines 388 to 393.\<close>

definition default_products :: "product_seed list" where
  "default_products =
     [\<lparr>seed_name = ''WFX Strawberry Delight'', seed_price = 3.0, seed_image = ''strawberry.svg''\<rparr>,
      \<lparr>seed_name = ''WFX Dark Chocolate'', seed_price = 2.5, seed_image = ''chocolate.svg''\<rparr>,
      \<lparr>seed_name = ''WFX Candy Crunch'', seed_price = 2.75, seed_image = ''candy.svg''\<rparr>,
      \<lparr>seed_name = ''WFX Berry Burst'', seed_price = 3.0, seed_image = ''berry.svg''\<rparr>,
      \<lparr>seed_name = ''WFX Salted Caramel'', seed_price = 2.5, seed_image = ''caramel.svg''\<rparr>,
      \<lparr>seed_name = ''WFX Orange Zest'', seed_price = 2.5, seed_image = ''orange.svg''\<rparr>]"

text \<open>
  Lines 382 to 397: count the products, and save the defaults when there is none. A failed
  save ends the startup (line 400).
\<close>

definition seed_if_empty ::
  "fault \<Rightarrow> product_seed list \<Rightarrow> store \<Rightarrow> store \<times> (storage_error + unit)" where
  "seed_if_empty f defaults st =
     (if length (products st) = 0 then save_products f st defaults else (st, Inr ()))"

section \<open>Notions used to state the properties\<close>

text \<open>The store right after the schema has been created: no rows, identifiers from 1.\<close>

definition empty_store :: store where
  "empty_store =
     \<lparr>products = [], orders = [], order_items = [],
      next_product = 1, next_order = 1, next_item = 1\<rparr>"

text \<open>
  A well-formed cart item: \<^verbatim>\<open>name\<close> is a string, \<^verbatim>\<open>price\<close> and \<^verbatim>\<open>quantity\<close> are numbers
  (other members, such as \<^verbatim>\<open>id\<close>, may be present). The three accessors read such an
  item.
\<close>

definition item_name :: "jsval \<Rightarrow> string" where
  "item_name i = (case get_prop i ''name'' of Normal (JString n) \<Rightarrow> n | _ \<Rightarrow> [])"

definition item_price :: "jsval \<Rightarrow> real" where
  "item_price i = (case get_prop i ''price'' of Normal (JNumber p) \<Rightarrow> p | _ \<Rightarrow> 0)"

definition item_quantity :: "jsval \<Rightarrow> real" where
  "item_quantity i = (case get_prop i ''quantity'' of Normal (JNumber q) \<Rightarrow> q | _ \<Rightarrow> 0)"

definition well_formed_item :: "jsval \<Rightarrow> bool" where
  "well_formed_item i =
     (get_prop i ''name'' = Normal (JString (item_name i)) \<and>
      get_prop i ''price'' = Normal (JNumber (item_price i)) \<and>
      get_prop i ''quantity'' = Normal (JNumber (item_quantity i)))"

text \<open>The cart that a request carries, when its \<^verbatim>\<open>cartData\<close> parses.\<close>

definition parsed_cart :: "form option \<Rightarrow> jsval option" where
  "parsed_cart req_body = JSON_parse (cart_text (cartData (fields_of req_body)))"

text \<open>The rows that the item inserts of one save append, numbered from \<open>n\<close>.\<close>

fun item_rows :: "nat \<Rightarrow> nat \<Rightarrow> item_draft list \<Rightarrow> order_item list" where
  "item_rows oid n [] = []"
| "item_rows oid n (d # ds) =
     \<lparr>productName = productName d, productPrice = productPrice d,
      quantity = stored_quantity (quantity d), item_id = n, item_order = oid\<rparr> #
     item_rows oid (Suc n) ds"

definition draft_of :: "jsval \<Rightarrow> item_draft" where
  "draft_of i =
     \<lparr>productName = JString (item_name i), productPrice = JNumber (item_price i),
      quantity = JNumber (item_quantity i)\<rparr>"


text \<open>\<^verbatim>\<open>Array.isArray\<close>, on a parsed document.\<close>

definition is_array :: "jsval \<Rightarrow> bool" where
  "is_array v = (case v of JArray xs \<Rightarrow> True | _ \<Rightarrow> False)"









text \<open>The seed that a product row was made from, and the rows made from a list of seeds.\<close>

definition seed_of :: "product \<Rightarrow> product_seed" where
  "seed_of p = \<lparr>seed_name = seed_name p, seed_price = seed_price p, seed_image = seed_image p\<rparr>"

fun product_rows :: "nat \<Rightarrow> product_seed list \<Rightarrow> product list" where
  "product_rows n [] = []"
| "product_rows n (p # ps) =
     \<lparr>seed_name = seed_name p, seed_price = seed_price p, seed_image = seed_image p,
      product_id = n\<rparr> # product_rows (Suc n) ps"

text \<open>The store after a first startup: the catalog holds the built-in defaults.\<close>

definition seeded_store :: store where
  "seeded_store = fst (seed_if_empty NoFault default_products empty_store)"

section \<open>Lemmas on the parser, the expressions and the store\<close>

lemma parse_empty_array: "JSON_parse ''[]'' = Some (JArray [])"
  by (simp add: JSON_parse_def is_ws_def)

lemma parse_empty_object: "JSON_parse ''{}'' = Some (JObject [])"
  by (simp add: JSON_parse_def is_ws_def)

lemma parse_not_json: "JSON_parse ''not json'' = None"
  by (simp add: JSON_parse_def is_ws_def is_digit_def)

lemma line_amount_well_formed:
  "well_formed_item i \<Longrightarrow> line_amount i = Normal (Num (item_price i * item_quantity i))"
  by (simp add: well_formed_item_def line_amount_def and_then_def)

lemma snapshot_well_formed:
  "well_formed_item i \<Longrightarrow> snapshot i = Normal (draft_of i)"
  by (simp add: well_formed_item_def snapshot_def and_then_def draft_of_def)

lemma reduce_total_well_formed:
  "list_all well_formed_item items \<Longrightarrow>
   reduce_total (Num a) items = Normal (Num (a + (\<Sum>i\<leftarrow>items. item_price i * item_quantity i)))"
proof (induction items arbitrary: a)
  case Nil
  then show ?case by simp
next
  case (Cons i items)
  then have "reduce_total (Num (a + item_price i * item_quantity i)) items =
      Normal (Num ((a + item_price i * item_quantity i) +
        (\<Sum>i\<leftarrow>items. item_price i * item_quantity i)))"
    by simp
  with Cons.prems show ?case
    by (simp add: line_amount_well_formed and_then_def add.assoc)
qed

lemma map_items_well_formed:
  "list_all well_formed_item items \<Longrightarrow> map_items items = Normal (map draft_of items)"
  by (induction items) (simp_all add: snapshot_well_formed and_then_def)

lemma apply_writes_Cons: "apply_writes (w # ws) st = apply_writes ws (w st)"
  by (simp add: apply_writes_def)

lemma apply_writes_items:
  "apply_writes (map (insert_item oid) ds) st =
     st\<lparr>order_items := order_items st @ item_rows oid (next_item st) ds,
        next_item := next_item st + length ds\<rparr>"
proof (induction ds arbitrary: st)
  case Nil
  then show ?case by (simp add: apply_writes_def)
next
  case (Cons d ds)
  have "apply_writes (map (insert_item oid) (d # ds)) st =
      apply_writes (map (insert_item oid) ds) (insert_item oid d st)"
    by (simp add: apply_writes_def)
  also have "\<dots> = (insert_item oid d st)
      \<lparr>order_items := order_items (insert_item oid d st) @
          item_rows oid (next_item (insert_item oid d st)) ds,
        next_item := next_item (insert_item oid d st) + length ds\<rparr>"
    by (rule Cons.IH)
  also have "\<dots> = st\<lparr>order_items := order_items st @ item_rows oid (next_item st) (d # ds),
        next_item := next_item st + length (d # ds)\<rparr>"
    by (simp add: insert_item_def)
  finally show ?case .
qed

lemma save_order_committed:
  "save_order NoFault st d ds =
     (st\<lparr>orders := orders st @
            [\<lparr>order_name = order_name d, order_address = order_address d,
              order_total = order_total d, order_id = next_order st\<rparr>],
         next_order := Suc (next_order st),
         order_items := order_items st @ item_rows (next_order st) (next_item st) ds,
         next_item := next_item st + length ds\<rparr>,
      Inr (next_order st))"
  by (simp add: save_order_def Let_def apply_writes_Cons apply_writes_items insert_order_def)

lemma save_order_failed:
  "\<exists>st'. save_order (FailAt k) st d ds = (st', Inl QueryFailed) \<and>
     products st' = products st \<and> orders st' = orders st \<and> order_items st' = order_items st"
  by (simp add: save_order_def rollback_def)

lemma reduce_total_snapshots:
  "reduce_total acc items = Normal t \<Longrightarrow> \<exists>ds. map_items items = Normal ds \<and> length ds = length items"
proof (induction items arbitrary: acc)
  case Nil
  then show ?case by simp
next
  case (Cons i items)
  from Cons.prems obtain a where a: "line_amount i = Normal a"
    and r: "reduce_total (js_add acc a) items = Normal t"
    by (auto simp: and_then_def split: completion.splits)
  from a obtain d where d: "snapshot i = Normal d"
    by (cases i) (auto simp: line_amount_def snapshot_def and_then_def)
  from Cons.IH [OF r] obtain ds where "map_items items = Normal ds" "length ds = length items"
    by blast
  with d show ?case by (simp add: and_then_def)
qed

lemma checkout_reaches_persist:
  assumes "parsed_cart rb = Some (JArray items)" and "items \<noteq> []"
    and "reduce_total (Num 0) items = Normal t"
  shows "post_checkout f st rb = persist f st (fields_of rb) t items"
  using assms by (simp add: post_checkout_def parsed_cart_def)

lemma checkout_committed:
  assumes "parsed_cart rb = Some (JArray items)" and "items \<noteq> []"
    and "list_all well_formed_item items"
  shows "post_checkout NoFault st rb =
     (st\<lparr>orders := orders st @
            [\<lparr>order_name = form_name (fields_of rb), order_address = form_address (fields_of rb),
              order_total = Num (\<Sum>i\<leftarrow>items. item_price i * item_quantity i),
              order_id = next_order st\<rparr>],
         next_order := Suc (next_order st),
         order_items := order_items st @
            item_rows (next_order st) (next_item st) (map draft_of items),
         next_item := next_item st + length items\<rparr>,
      Response 200
        (renderPage ''Order Confirmation - Web Forx Online Storeshop''
           (confirmation (next_order st))))"
proof -
  from assms(3) have t: "reduce_total (Num 0) items =
      Normal (Num (\<Sum>i\<leftarrow>items. item_price i * item_quantity i))"
    using reduce_total_well_formed [of items 0] by simp
  from assms(3) have m: "map_items items = Normal (map draft_of items)"
    by (rule map_items_well_formed)
  show ?thesis
    by (simp add: checkout_reaches_persist [OF assms(1,2) t] persist_def m save_order_committed)
qed

lemma checkout_failed:
  assumes "parsed_cart rb = Some (JArray items)" and "items \<noteq> []"
    and "reduce_total (Num 0) items = Normal t"
  shows "\<exists>st'. post_checkout (FailAt k) st rb = (st', Response 500 (Text ''Error processing order'')) \<and>
     products st' = products st \<and> orders st' = orders st \<and> order_items st' = order_items st"
proof -
  from reduce_total_snapshots [OF assms(3)] obtain ds where m: "map_items items = Normal ds"
    by blast
  from save_order_failed [of k st "\<lparr>order_name = form_name (fields_of rb),
      order_address = form_address (fields_of rb), order_total = t\<rparr>" ds]
  obtain st' where "save_order (FailAt k) st \<lparr>order_name = form_name (fields_of rb),
      order_address = form_address (fields_of rb), order_total = t\<rparr> ds = (st', Inl QueryFailed)"
    "products st' = products st" "orders st' = orders st" "order_items st' = order_items st"
    by blast
  then show ?thesis
    by (simp add: checkout_reaches_persist [OF assms] persist_def m)
qed

lemma item_rows_length: "length (item_rows oid n ds) = length ds"
  by (induction ds arbitrary: n) simp_all

lemma item_rows_nth:
  "k < length ds \<Longrightarrow> item_rows oid n ds ! k =
     \<lparr>productName = productName (ds ! k), productPrice = productPrice (ds ! k),
      quantity = stored_quantity (quantity (ds ! k)), item_id = n + k, item_order = oid\<rparr>"
proof (induction ds arbitrary: n k)
  case Nil
  then show ?case by simp
next
  case (Cons d ds)
  then show ?case by (cases k) simp_all
qed



lemma apply_writes_products:
  "apply_writes (map insert_product ps) st =
     st\<lparr>products := products st @ product_rows (next_product st) ps,
        next_product := next_product st + length ps\<rparr>"
proof (induction ps arbitrary: st)
  case Nil
  then show ?case by (simp add: apply_writes_def)
next
  case (Cons p ps)
  have "apply_writes (map insert_product (p # ps)) st =
      apply_writes (map insert_product ps) (insert_product p st)"
    by (simp add: apply_writes_Cons)
  also have "\<dots> = (insert_product p st)
      \<lparr>products := products (insert_product p st) @
          product_rows (next_product (insert_product p st)) ps,
        next_product := next_product (insert_product p st) + length ps\<rparr>"
    by (rule Cons.IH)
  also have "\<dots> = st\<lparr>products := products st @ product_rows (next_product st) (p # ps),
        next_product := next_product st + length (p # ps)\<rparr>"
    by (simp add: insert_product_def)
  finally show ?case .
qed

lemma seed_of_product_rows: "map seed_of (product_rows n ps) = ps"
  by (induction ps arbitrary: n) (simp_all add: seed_of_def)

lemma product_rows_empty: "(product_rows n ps = []) = (ps = [])"
  by (cases ps) simp_all

lemma seed_first:
  "products st = [] \<Longrightarrow>
   seed_if_empty NoFault d st =
     (st\<lparr>products := product_rows (next_product st) d,
         next_product := next_product st + length d\<rparr>, Inr ())"
  by (simp add: seed_if_empty_def save_products_def apply_writes_products)

lemma seed_skipped: "products st \<noteq> [] \<Longrightarrow> seed_if_empty f d st = (st, Inr ())"
  by (simp add: seed_if_empty_def)

lemma example_cart_parses:
  \<open>JSON_parse ''[{"id":2,"name":"WFX Dark Chocolate","price":2.50,"quantity":3}]'' =
     Some (JArray [JObject [(''id'', JNumber 2), (''name'', JString ''WFX Dark Chocolate''),
       (''price'', JNumber 2.5), (''quantity'', JNumber 3)]])\<close>
  by code_simp




lemma digits_val_snoc: "digits_val (ds @ [c]) = 10 * digits_val ds + digit_val c"
  by (simp add: digits_val_def)

lemma digit_char: "d < 10 \<Longrightarrow> digit_val (char_of (48 + d)) = d \<and> is_digit (char_of (48 + d))"
  by (simp add: digit_val_def is_digit_def)

lemma show_nat_value: "digits_val (show_nat n) = n"
proof (induction n rule: show_nat.induct)
  case (1 n)
  show ?case
  proof (cases "n < 10")
    case True
    then show ?thesis by (subst show_nat.simps) (simp add: digits_val_def digit_char)
  next
    case False
    have "n mod 10 < 10" by simp
    from digit_char [OF this] have d: "digit_val (char_of (48 + n mod 10)) = n mod 10" by simp
    from False 1 have "digits_val (show_nat (n div 10)) = n div 10" by simp
    with False d show ?thesis
      by (subst show_nat.simps) (simp add: digits_val_snoc)
  qed
qed

lemma show_nat_digits: "show_nat n \<noteq> [] \<and> list_all is_digit (show_nat n)"
proof (induction n rule: show_nat.induct)
  case (1 n)
  show ?case
  proof (cases "n < 10")
    case True
    then show ?thesis by (subst (1 2) show_nat.simps) (simp add: digit_char)
  next
    case False
    have "n mod 10 < 10" by simp
    from digit_char [OF this] have d: "is_digit (char_of (48 + n mod 10))" by simp
    from False 1 have "list_all is_digit (show_nat (n div 10))" by simp
    with False d show ?thesis
      by (subst (1 2) show_nat.simps) simp
  qed
qed












section \<open>The properties\<close>

subsection \<open>Readiness\<close>

text \<open>
  C8. \<^verbatim>\<open>GET /readyz\<close> answers 200 ``ready'' exactly when the data source is initialized and
  503 ``not ready'' exactly when it is not; in both states it sends a response.
\<close>

theorem readyz_reflects_initialization:
  "(readyz ds = Response 200 (Text ''ready'')) = isInitialized ds \<and>
   (readyz ds = Response 503 (Text ''not ready'')) = (\<not> isInitialized ds) \<and>
   (\<exists>status b. readyz ds = Response status b)"
  by (simp add: readyz_def)

subsection \<open>Rejected submissions\<close>

text \<open>
  C9. When the request has no body, or its form has no \<^verbatim>\<open>cartData\<close> field, the handler
  parses the default \<^verbatim>\<open>'[]'\<close>: it answers 400 ``Cart is empty'', not ``Invalid cart data'',
  and the store is as before, whatever the name, the address and the state of the storage.
\<close>

theorem absent_cart_is_empty_cart:
  "post_checkout f st None = (st, Response 400 (Text ''Cart is empty'')) \<and>
   post_checkout f st (Some \<lparr>form_name = n, form_address = a, cartData = None\<rparr>) =
     (st, Response 400 (Text ''Cart is empty'')) \<and>
   snd (post_checkout f st (Some \<lparr>form_name = n, form_address = a, cartData = None\<rparr>)) \<noteq>
     Response 400 (Text ''Invalid cart data'')"
  by (simp add: post_checkout_def fields_of_def cart_text_def parse_empty_array)

text \<open>
  C4. A submission whose cart parses to the empty array is answered with 400 ``Cart is
  empty'' and leaves the store as it was: no order and no order item is created.
\<close>

theorem empty_cart_rejected:
  assumes "parsed_cart req_body = Some (JArray [])"
  shows "post_checkout f st req_body = (st, Response 400 (Text ''Cart is empty''))"
  using assms by (simp add: post_checkout_def parsed_cart_def)

theorem empty_cart_rejected_witness:
  "post_checkout NoFault empty_store
     (Some \<lparr>form_name = Some ''Alice'', form_address = Some ''1 Main St'',
            cartData = Some '' [ ] ''\<rparr>) =
   (empty_store, Response 400 (Text ''Cart is empty''))"
proof -
  have "parsed_cart (Some \<lparr>form_name = Some ''Alice'', form_address = Some ''1 Main St'',
      cartData = Some '' [ ] ''\<rparr>) = Some (JArray [])"
    by (simp add: parsed_cart_def fields_of_def cart_text_def JSON_parse_def is_ws_def)
  from empty_cart_rejected [OF this] show ?thesis .
qed

text \<open>
  C3 as stated does not hold. The document \<^verbatim>\<open>{}\<close> is valid JSON and not a sequence; the
  handler answers it with ``Cart is empty'', the response of the empty cart, not with
  ``Invalid cart data''.
\<close>

theorem non_sequence_counterexample:
  "JSON_parse ''{}'' = Some (JObject []) \<and>
   post_checkout NoFault empty_store
     (Some \<lparr>form_name = Some ''Alice'', form_address = Some ''1 Main St'',
            cartData = Some ''{}''\<rparr>) =
   (empty_store, Response 400 (Text ''Cart is empty'')) \<and>
   Text ''Cart is empty'' \<noteq> Text ''Invalid cart data''"
  by (simp add: post_checkout_def fields_of_def cart_text_def parse_empty_object)

text \<open>
  C3, amended. A non-empty \<^verbatim>\<open>cartData\<close> that is not valid JSON is answered with 400
  ``Invalid cart data''; one that is valid JSON but not an array is answered with 400 ``Cart
  is empty'' (the guard of line 348). In both cases the store is as before. (The empty
  string is replaced by the default \<^verbatim>\<open>'[]'\<close> before the parse, line 344; \<open>parsed_cart\<close> is
  the parse of what is left after that replacement.)
\<close>

theorem malformed_cart_rejected:
  "(parsed_cart req_body = None \<longrightarrow>
      post_checkout f st req_body = (st, Response 400 (Text ''Invalid cart data''))) \<and>
   (parsed_cart req_body = Some v \<and> \<not> is_array v \<longrightarrow>
      post_checkout f st req_body = (st, Response 400 (Text ''Cart is empty'')))"
  by (cases v) (simp_all add: post_checkout_def parsed_cart_def is_array_def)

theorem malformed_cart_rejected_witness:
  "post_checkout NoFault empty_store
     (Some \<lparr>form_name = Some ''Alice'', form_address = Some ''1 Main St'',
            cartData = Some ''not json''\<rparr>) =
   (empty_store, Response 400 (Text ''Invalid cart data'')) \<and>
   post_checkout NoFault empty_store
     (Some \<lparr>form_name = Some ''Alice'', form_address = Some ''1 Main St'',
            cartData = Some ''{}''\<rparr>) =
   (empty_store, Response 400 (Text ''Cart is empty''))"
proof -
  let ?a = "Some \<lparr>form_name = Some ''Alice'', form_address = Some ''1 Main St'',
            cartData = Some ''not json''\<rparr>"
  let ?b = "Some \<lparr>form_name = Some ''Alice'', form_address = Some ''1 Main St'',
            cartData = Some ''{}''\<rparr>"
  have a: "parsed_cart ?a = None"
    by (simp add: parsed_cart_def fields_of_def cart_text_def parse_not_json)
  have b: "parsed_cart ?b = Some (JObject []) \<and> \<not> is_array (JObject [])"
    by (simp add: parsed_cart_def fields_of_def cart_text_def parse_empty_object is_array_def)
  from malformed_cart_rejected [where req_body = ?a and v = "JObject []" and f = NoFault
      and st = empty_store] a
    malformed_cart_rejected [where req_body = ?b and v = "JObject []" and f = NoFault
      and st = empty_store] b
  show ?thesis by simp
qed

subsection \<open>Accepted submissions\<close>



text \<open>
  C6. For a non-empty cart of \<open>N\<close> well-formed items that the storage accepts, the handler
  appends exactly \<open>N\<close> order items; the \<open>k\<close>-th one holds the name, the price and the
  quantity of the \<open>k\<close>-th cart item and refers to the new order. The response is the
  confirmation page with status 200: its content is the text of lines 362 to 367 with, after
  ``Your order ID is'', the decimal digits of the new order's identifier (a non-empty run
  of digits whose value is the identifier). At the cart of one ``WFX Dark Chocolate'' at
  2.50 with quantity 3, on the seeded store: total 7.50, one item, and the page says ``Your
  order ID is 1.''.
\<close>

theorem items_are_snapshots:
  assumes "parsed_cart req_body = Some (JArray items)" and "items \<noteq> []"
    and "list_all well_formed_item items"
  shows \<open>\<exists>st' rows.
     post_checkout NoFault st req_body =
       (st', Response 200 (Page ''Order Confirmation - Web Forx Online Storeshop''
          (''<div class="text-center"><h1>Thank you for your order!</h1><p>Your order ID is '' @
           show_nat (next_order st) @
           ''.</p><a class="btn btn-primary" href="/" onclick="sessionStorage.removeItem('cart')">Back to Home</a></div>''))) \<and>
     show_nat (next_order st) \<noteq> [] \<and> list_all is_digit (show_nat (next_order st)) \<and>
     digits_val (show_nat (next_order st)) = next_order st \<and>
     orders st' = orders st @
       [\<lparr>order_name = form_name (fields_of req_body),
         order_address = form_address (fields_of req_body),
         order_total = Num (\<Sum>i\<leftarrow>items. item_price i * item_quantity i),
         order_id = next_order st\<rparr>] \<and>
     order_items st' = order_items st @ rows \<and> length rows = length items \<and>
     (\<forall>k<length items.
        productName (rows ! k) = JString (item_name (items ! k)) \<and>
        productPrice (rows ! k) = JNumber (item_price (items ! k)) \<and>
        quantity (rows ! k) = JNumber (item_quantity (items ! k)) \<and>
        item_order (rows ! k) = next_order st)\<close>
proof -
  let ?rows = "item_rows (next_order st) (next_item st) (map draft_of items)"
  let ?st' = "st\<lparr>orders := orders st @
            [\<lparr>order_name = form_name (fields_of req_body),
              order_address = form_address (fields_of req_body),
              order_total = Num (\<Sum>i\<leftarrow>items. item_price i * item_quantity i),
              order_id = next_order st\<rparr>],
         next_order := Suc (next_order st),
         order_items := order_items st @ ?rows,
         next_item := next_item st + length items\<rparr>"
  have r: \<open>post_checkout NoFault st req_body =
       (?st', Response 200 (Page ''Order Confirmation - Web Forx Online Storeshop''
          (''<div class="text-center"><h1>Thank you for your order!</h1><p>Your order ID is '' @
           show_nat (next_order st) @
           ''.</p><a class="btn btn-primary" href="/" onclick="sessionStorage.removeItem('cart')">Back to Home</a></div>'')))\<close>
    by (simp add: checkout_committed [OF assms] renderPage_def confirmation_def)
  have d: "show_nat (next_order st) \<noteq> [] \<and> list_all is_digit (show_nat (next_order st)) \<and>
     digits_val (show_nat (next_order st)) = next_order st"
    using show_nat_digits [of "next_order st"] show_nat_value [of "next_order st"] by blast
  have o: "orders ?st' = orders st @
       [\<lparr>order_name = form_name (fields_of req_body),
         order_address = form_address (fields_of req_body),
         order_total = Num (\<Sum>i\<leftarrow>items. item_price i * item_quantity i),
         order_id = next_order st\<rparr>]"
    by simp
  have i: "order_items ?st' = order_items st @ ?rows" by simp
  have l: "length ?rows = length items" by (simp add: item_rows_length)
  have k: "\<forall>k<length items.
        productName (?rows ! k) = JString (item_name (items ! k)) \<and>
        productPrice (?rows ! k) = JNumber (item_price (items ! k)) \<and>
        quantity (?rows ! k) = JNumber (item_quantity (items ! k)) \<and>
        item_order (?rows ! k) = next_order st"
    by (simp add: item_rows_nth draft_of_def stored_quantity_def)
  from r d o i l k show ?thesis by blast
qed

theorem items_are_snapshots_witness:
  \<open>\<exists>st'. post_checkout NoFault seeded_store
      (Some \<lparr>form_name = Some ''Alice'', form_address = Some ''1 Main St'',
             cartData = Some ''[{"id":2,"name":"WFX Dark Chocolate","price":2.50,"quantity":3}]''\<rparr>) =
        (st', Response 200 (Page ''Order Confirmation - Web Forx Online Storeshop''
          ''<div class="text-center"><h1>Thank you for your order!</h1><p>Your order ID is 1.</p><a class="btn btn-primary" href="/" onclick="sessionStorage.removeItem('cart')">Back to Home</a></div>'')) \<and>
      orders st' = [\<lparr>order_name = Some ''Alice'', order_address = Some ''1 Main St'',
        order_total = Num 7.5, order_id = 1\<rparr>] \<and>
      map (\<lambda>r. (productName r, productPrice r, quantity r)) (order_items st') =
        [(JString ''WFX Dark Chocolate'', JNumber 2.5, JNumber 3)]\<close>
proof -
  let ?rb = \<open>Some \<lparr>form_name = Some ''Alice'', form_address = Some ''1 Main St'',
             cartData = Some ''[{"id":2,"name":"WFX Dark Chocolate","price":2.50,"quantity":3}]''\<rparr>\<close>
  let ?items = "[JObject [(''id'', JNumber 2), (''name'', JString ''WFX Dark Chocolate''),
       (''price'', JNumber 2.5), (''quantity'', JNumber 3)]]"
  have p: "parsed_cart ?rb = Some (JArray ?items)"
    by (simp add: parsed_cart_def fields_of_def cart_text_def example_cart_parses)
  have n: "?items \<noteq> []" by simp
  have w: "list_all well_formed_item ?items"
    by (simp add: well_formed_item_def item_name_def item_price_def item_quantity_def)
  have s: "orders seeded_store = [] \<and> order_items seeded_store = [] \<and> next_order seeded_store = 1"
    by (simp add: seeded_store_def seed_first empty_store_def)
  from items_are_snapshots [OF p n w, of seeded_store]
  obtain st' rows where r: \<open>post_checkout NoFault seeded_store ?rb =
       (st', Response 200 (Page ''Order Confirmation - Web Forx Online Storeshop''
          (''<div class="text-center"><h1>Thank you for your order!</h1><p>Your order ID is '' @
           show_nat (next_order seeded_store) @
           ''.</p><a class="btn btn-primary" href="/" onclick="sessionStorage.removeItem('cart')">Back to Home</a></div>'')))\<close>
    and o: "orders st' = orders seeded_store @
       [\<lparr>order_name = form_name (fields_of ?rb), order_address = form_address (fields_of ?rb),
         order_total = Num (\<Sum>i\<leftarrow>?items. item_price i * item_quantity i),
         order_id = next_order seeded_store\<rparr>]"
    and i: "order_items st' = order_items seeded_store @ rows"
    and l: "length rows = length ?items"
    and k: "\<forall>k<length ?items.
        productName (rows ! k) = JString (item_name (?items ! k)) \<and>
        productPrice (rows ! k) = JNumber (item_price (?items ! k)) \<and>
        quantity (rows ! k) = JNumber (item_quantity (?items ! k)) \<and>
        item_order (rows ! k) = next_order seeded_store"
    by blast
  have one: "show_nat 1 = ''1''" by code_simp
  from l obtain x where x: "rows = [x]" by (cases rows) auto
  from k x have "productName x = JString ''WFX Dark Chocolate'' \<and> productPrice x = JNumber 2.5
      \<and> quantity x = JNumber 3"
    by (simp add: item_name_def item_price_def item_quantity_def)
  with r o i x s one show ?thesis
    by (simp add: fields_of_def item_price_def item_quantity_def)
qed




text \<open>
  C10. The handler does not look at the buyer's name and address. For a non-empty cart of
  well-formed items, the response is that of the save, called with the name and the
  address as submitted; it is never a 400. When the storage accepts the save, the order is
  persisted with the submitted name and address unchanged, empty strings included.
\<close>

theorem buyer_fields_not_validated:
  assumes "JSON_parse (cart_text cd) = Some (JArray items)" and "items \<noteq> []"
    and "list_all well_formed_item items"
  shows "post_checkout f st (Some \<lparr>form_name = n, form_address = a, cartData = cd\<rparr>) =
     (case save_order f st
             \<lparr>order_name = n, order_address = a,
              order_total = Num (\<Sum>i\<leftarrow>items. item_price i * item_quantity i)\<rparr>
             (map draft_of items) of
        (st', Inl e) \<Rightarrow> (st', Response 500 (Text ''Error processing order''))
      | (st', Inr oid) \<Rightarrow>
          (st', Response 200 (renderPage ''Order Confirmation - Web Forx Online Storeshop''
             (confirmation oid)))) \<and>
   (\<exists>st' b. post_checkout NoFault st
        (Some \<lparr>form_name = Some buyer, form_address = Some addr, cartData = cd\<rparr>) =
          (st', Response 200 b) \<and>
      orders st' = orders st @
        [\<lparr>order_name = Some buyer, order_address = Some addr,
          order_total = Num (\<Sum>i\<leftarrow>items. item_price i * item_quantity i),
          order_id = next_order st\<rparr>]) \<and>
   (\<exists>st' status b. post_checkout f st (Some \<lparr>form_name = n, form_address = a, cartData = cd\<rparr>) =
        (st', Response status b) \<and> status \<noteq> 400)"
proof -
  let ?rb = "Some \<lparr>form_name = n, form_address = a, cartData = cd\<rparr>"
  let ?rb' = "Some \<lparr>form_name = Some buyer, form_address = Some addr, cartData = cd\<rparr>"
  have p: "parsed_cart ?rb = Some (JArray items)" and p': "parsed_cart ?rb' = Some (JArray items)"
    using assms(1) by (simp_all add: parsed_cart_def fields_of_def)
  from assms(3) have t: "reduce_total (Num 0) items =
      Normal (Num (\<Sum>i\<leftarrow>items. item_price i * item_quantity i))"
    using reduce_total_well_formed [of items 0] by simp
  have call: "post_checkout f st ?rb =
     (case save_order f st
             \<lparr>order_name = n, order_address = a,
              order_total = Num (\<Sum>i\<leftarrow>items. item_price i * item_quantity i)\<rparr>
             (map draft_of items) of
        (st', Inl e) \<Rightarrow> (st', Response 500 (Text ''Error processing order''))
      | (st', Inr oid) \<Rightarrow>
          (st', Response 200 (renderPage ''Order Confirmation - Web Forx Online Storeshop''
             (confirmation oid))))"
    by (simp add: checkout_reaches_persist [OF p assms(2) t] persist_def
        map_items_well_formed [OF assms(3)] fields_of_def)
  have ok: "\<exists>st' b. post_checkout NoFault st ?rb' = (st', Response 200 b) \<and>
      orders st' = orders st @
        [\<lparr>order_name = Some buyer, order_address = Some addr,
          order_total = Num (\<Sum>i\<leftarrow>items. item_price i * item_quantity i),
          order_id = next_order st\<rparr>]"
    by (simp add: checkout_committed [OF p' assms(2,3)] fields_of_def)
  have never400: "\<exists>st' status b. post_checkout f st ?rb = (st', Response status b) \<and> status \<noteq> 400"
  proof (cases f)
    case NoFault
    then show ?thesis by (simp add: checkout_committed [OF p assms(2,3)])
  next
    case (FailAt j)
    with checkout_failed [OF p assms(2) t, of j st] show ?thesis by auto
  qed
  from call ok never400 show ?thesis by blast
qed

theorem buyer_fields_not_validated_witness:
  \<open>\<exists>st' b. post_checkout NoFault empty_store
      (Some \<lparr>form_name = Some '''', form_address = Some '''',
             cartData = Some ''[{"id":2,"name":"WFX Dark Chocolate","price":2.50,"quantity":3}]''\<rparr>) =
        (st', Response 200 b) \<and>
      orders st' = [\<lparr>order_name = Some '''', order_address = Some '''',
        order_total = Num 7.5, order_id = 1\<rparr>]\<close>
proof -
  let ?cd = \<open>Some ''[{"id":2,"name":"WFX Dark Chocolate","price":2.50,"quantity":3}]''\<close>
  let ?items = "[JObject [(''id'', JNumber 2), (''name'', JString ''WFX Dark Chocolate''),
       (''price'', JNumber 2.5), (''quantity'', JNumber 3)]]"
  have p: "JSON_parse (cart_text ?cd) = Some (JArray ?items)"
    by (simp add: cart_text_def example_cart_parses)
  have n: "?items \<noteq> []" by simp
  have w: "list_all well_formed_item ?items"
    by (simp add: well_formed_item_def item_name_def item_price_def item_quantity_def)
  from buyer_fields_not_validated [OF p n w, where f = NoFault and st = empty_store
      and n = "Some []" and a = "Some []" and buyer = "[]" and addr = "[]"]
  have "\<exists>st' b. post_checkout NoFault empty_store
        (Some \<lparr>form_name = Some [], form_address = Some [], cartData = ?cd\<rparr>) =
          (st', Response 200 b) \<and>
      orders st' = orders empty_store @
        [\<lparr>order_name = Some [], order_address = Some [],
          order_total = Num (\<Sum>i\<leftarrow>?items. item_price i * item_quantity i),
          order_id = next_order empty_store\<rparr>]"
    by (rule conjunct1 [OF conjunct2])
  then show ?thesis
    by (simp add: item_price_def item_quantity_def empty_store_def)
qed

subsection \<open>Storage failures\<close>

text \<open>
  C2. When the save of a validated submission fails, at whatever statement of its
  transaction, the handler answers 500 ``Error processing order'' and the rows of the three
  tables are those from before: no order header and no order item of the failed submission
  is left. Whatever the outcome of the save, the tables either are unchanged or hold the
  new order with all of its items. In the witness the insert of the header has run when the
  insert of the item fails: the order counter has advanced, and no row is left.
\<close>

theorem failed_save_leaves_no_rows:
  assumes "parsed_cart req_body = Some (JArray items)" and "items \<noteq> []"
    and "reduce_total (Num 0) items = Normal t"
  shows "(\<exists>st'. post_checkout (FailAt k) st req_body =
             (st', Response 500 (Text ''Error processing order'')) \<and>
           orders st' = orders st \<and> order_items st' = order_items st \<and>
           products st' = products st) \<and>
         (\<exists>st' r. post_checkout f st req_body = (st', r) \<and>
           (orders st' = orders st \<and> order_items st' = order_items st \<or>
            length (orders st') = Suc (length (orders st)) \<and>
            length (order_items st') = length (order_items st) + length items))"
proof
  from checkout_failed [OF assms, of k st]
  show "\<exists>st'. post_checkout (FailAt k) st req_body =
             (st', Response 500 (Text ''Error processing order'')) \<and>
           orders st' = orders st \<and> order_items st' = order_items st \<and>
           products st' = products st"
    by blast
next
  show "\<exists>st' r. post_checkout f st req_body = (st', r) \<and>
           (orders st' = orders st \<and> order_items st' = order_items st \<or>
            length (orders st') = Suc (length (orders st)) \<and>
            length (order_items st') = length (order_items st) + length items)"
  proof (cases f)
    case (FailAt j)
    with checkout_failed [OF assms, of j st] show ?thesis by auto
  next
    case NoFault
    from reduce_total_snapshots [OF assms(3)] obtain ds where
      m: "map_items items = Normal ds" and l: "length ds = length items"
      by blast
    show ?thesis
      by (simp add: NoFault checkout_reaches_persist [OF assms] persist_def m
          save_order_committed item_rows_length l)
  qed
qed

theorem failed_save_leaves_no_rows_witness:
  \<open>\<exists>st'. post_checkout (FailAt 1) empty_store
      (Some \<lparr>form_name = Some ''Alice'', form_address = Some ''1 Main St'',
             cartData = Some ''[{"id":2,"name":"WFX Dark Chocolate","price":2.50,"quantity":3}]''\<rparr>) =
        (st', Response 500 (Text ''Error processing order'')) \<and>
      orders st' = [] \<and> order_items st' = [] \<and> products st' = [] \<and>
      next_order st' = 2 \<and> next_item st' = 1\<close>
proof -
  let ?rb = \<open>Some \<lparr>form_name = Some ''Alice'', form_address = Some ''1 Main St'',
             cartData = Some ''[{"id":2,"name":"WFX Dark Chocolate","price":2.50,"quantity":3}]''\<rparr>\<close>
  let ?items = "[JObject [(''id'', JNumber 2), (''name'', JString ''WFX Dark Chocolate''),
       (''price'', JNumber 2.5), (''quantity'', JNumber 3)]]"
  have p: "parsed_cart ?rb = Some (JArray ?items)"
    by (simp add: parsed_cart_def fields_of_def cart_text_def example_cart_parses)
  have n: "?items \<noteq> []" by simp
  have t: "reduce_total (Num 0) ?items = Normal (Num 7.5)"
    by (simp add: line_amount_def and_then_def)
  have c: "next_order (fst (post_checkout (FailAt 1) empty_store ?rb)) = 2 \<and>
      next_item (fst (post_checkout (FailAt 1) empty_store ?rb)) = 1"
    by (simp add: checkout_reaches_persist [OF p n t] persist_def snapshot_def and_then_def
        save_order_def rollback_def apply_writes_def insert_order_def empty_store_def)
  from failed_save_leaves_no_rows [OF p n t, where k = 1 and st = empty_store and f = NoFault]
  obtain st' where r: "post_checkout (FailAt 1) empty_store ?rb =
        (st', Response 500 (Text ''Error processing order''))"
    and u: "orders st' = orders empty_store" "order_items st' = order_items empty_store"
      "products st' = products empty_store"
    by blast
  from r c have "next_order st' = 2 \<and> next_item st' = 1" by simp
  with r u show ?thesis by (simp add: empty_store_def)
qed

subsection \<open>Seeding\<close>

text \<open>
  C7. Seeding twice leaves what seeding once leaves: the second call changes nothing and
  reports no error. On an empty catalog the first call inserts exactly the given defaults,
  in order; on a catalog that has products it inserts nothing, and then a call does not
  reach the storage at all: its result is the same under every fault.
\<close>

theorem seed_is_idempotent:
  "seed_if_empty NoFault d (fst (seed_if_empty NoFault d st)) =
     (fst (seed_if_empty NoFault d st), Inr ()) \<and>
   (products st = [] \<longrightarrow> map seed_of (products (fst (seed_if_empty NoFault d st))) = d) \<and>
   (products st \<noteq> [] \<longrightarrow> fst (seed_if_empty NoFault d st) = st) \<and>
   (products (fst (seed_if_empty NoFault d st)) \<noteq> [] \<longrightarrow>
      seed_if_empty f d (fst (seed_if_empty NoFault d st)) =
        (fst (seed_if_empty NoFault d st), Inr ()))"
proof -
  have twice: "seed_if_empty NoFault d (fst (seed_if_empty NoFault d st)) =
     (fst (seed_if_empty NoFault d st), Inr ()) \<and>
   (products st = [] \<longrightarrow> map seed_of (products (fst (seed_if_empty NoFault d st))) = d) \<and>
   (products st \<noteq> [] \<longrightarrow> fst (seed_if_empty NoFault d st) = st)"
  proof (cases "products st = []")
    case False
    then show ?thesis by (simp add: seed_skipped)
  next
    case True
    show ?thesis
    proof (cases "d = []")
      case True
      with \<open>products st = []\<close> show ?thesis by (simp add: seed_first)
    next
      case False
      then have "products (st\<lparr>products := product_rows (next_product st) d,
           next_product := next_product st + length d\<rparr>) \<noteq> []"
        by (simp add: product_rows_empty)
      from seed_skipped [OF this] \<open>products st = []\<close> show ?thesis
        by (simp add: seed_first seed_of_product_rows)
    qed
  qed
  have skipped: "products (fst (seed_if_empty NoFault d st)) \<noteq> [] \<longrightarrow>
      seed_if_empty f d (fst (seed_if_empty NoFault d st)) =
        (fst (seed_if_empty NoFault d st), Inr ())"
    by (simp add: seed_skipped)
  from twice skipped show ?thesis by blast
qed

theorem seed_is_idempotent_witness:
  "map seed_of (products (fst (seed_if_empty NoFault default_products
      (fst (seed_if_empty NoFault default_products empty_store))))) = default_products \<and>
   length (products (fst (seed_if_empty NoFault default_products
      (fst (seed_if_empty NoFault default_products empty_store))))) = 6 \<and>
   products seeded_store \<noteq> [] \<and>
   seed_if_empty (FailAt 0) default_products seeded_store = (seeded_store, Inr ())"
proof -
  have e: "products empty_store = []" by (simp add: empty_store_def)
  from seed_is_idempotent [of default_products empty_store] e
  have once: "seed_if_empty NoFault default_products seeded_store = (seeded_store, Inr ())"
    and same: "map seed_of (products seeded_store) = default_products"
    by (simp_all add: seeded_store_def)
  have six: "length default_products = 6" by (simp add: default_products_def)
  from same six have l: "length (products seeded_store) = 6" by (metis length_map)
  then have ne: "products seeded_store \<noteq> []" by auto
  from seed_is_idempotent [of default_products empty_store "FailAt 0"] ne
  have "seed_if_empty (FailAt 0) default_products seeded_store = (seeded_store, Inr ())"
    by (simp add: seeded_store_def)
  with once same l ne show ?thesis by (simp add: seeded_store_def)
qed

end
